theory Spec2Isabelle
  imports Complex_Main "HOL-Library.Multiset" "HOL-Library.AList"
    "HOL-Library.Char_ord" "HOL-Library.List_Lexorder"
begin

section \<open>Python values and exceptions\<close>

text \<open>
  The exceptions that the ranking code of \<^verbatim>\<open>rank_maintainer.py\<close> can raise.
  A failed \<^verbatim>\<open>assert\<close> is \<open>AssertionError\<close>; \<open>ClientError\<close> stands for whatever the
  exchange client raises when a request fails.
\<close>

datatype py_error =
  AssertionError | IndexError | KeyError | ZeroDivisionError
  | ValueError | TypeError | ClientError

text \<open>
  A scalar of a raw bar as the exchange client hands it over (decoded JSON).
  Python floats are idealised as reals: rounding, infinities and NaN are not modelled.
\<close>

datatype pyval = PNone | PInt int | PFloat real | PStr string

text \<open>
  The built-in conversions \<^verbatim>\<open>int(x)\<close>, \<^verbatim>\<open>float(x)\<close> and \<^verbatim>\<open>str(x)\<close>. How Python reads a
  number out of a string and prints a value is not code of this repository, so the three
  string functions are parameters.
\<close>

record builtins =
  int_of_str :: "string \<Rightarrow> int option"
  float_of_str :: "string \<Rightarrow> real option"
  str_of :: "pyval \<Rightarrow> string"

fun py_int :: "builtins \<Rightarrow> pyval \<Rightarrow> py_error + int" where
  "py_int B PNone = Inl TypeError"
| "py_int B (PInt i) = Inr i"
| "py_int B (PFloat f) = Inr (if 0 \<le> f then \<lfloor>f\<rfloor> else \<lceil>f\<rceil>)"
| "py_int B (PStr s) = (case int_of_str B s of None \<Rightarrow> Inl ValueError | Some i \<Rightarrow> Inr i)"

fun py_float :: "builtins \<Rightarrow> pyval \<Rightarrow> py_error + real" where
  "py_float B PNone = Inl TypeError"
| "py_float B (PInt i) = Inr (real_of_int i)"
| "py_float B (PFloat f) = Inr f"
| "py_float B (PStr s) = (case float_of_str B s of None \<Rightarrow> Inl ValueError | Some f \<Rightarrow> Inr f)"

text \<open>Sequencing of a computation that may raise.\<close>

definition bind_err :: "py_error + 'a \<Rightarrow> ('a \<Rightarrow> py_error + 'b) \<Rightarrow> py_error + 'b" where
  "bind_err m f = (case m of Inl e \<Rightarrow> Inl e | Inr x \<Rightarrow> f x)"

text \<open>\<^verbatim>\<open>xs[i]\<close>: a negative index counts from the end, an index out of range raises.\<close>

definition py_getitem :: "'a list \<Rightarrow> int \<Rightarrow> py_error + 'a" where
  "py_getitem xs i =
     (if 0 \<le> i \<and> i < int (length xs) then Inr (xs ! nat i)
      else if i < 0 \<and> - int (length xs) \<le> i then Inr (xs ! nat (int (length xs) + i))
      else Inl IndexError)"

section \<open>KLine: one bar\<close>

text \<open>
  \<^verbatim>\<open>KLine.__init__\<close> sets the twelve attributes from its keyword arguments and then
  converts them, in the order of the source. There is no conversion of \<^verbatim>\<open>min_price\<close>
  in the source, so that attribute keeps the raw value.
\<close>

record KLine =
  start_time :: int
  open_price :: real
  max_price :: real
  min_price :: pyval
  close_price :: real
  turn_over :: real
  end_time :: int
  volume :: real
  transaction_num :: int
  buying_turn_over :: real
  buying_volume :: real
  ignore_param :: string

text \<open>The keyword arguments of \<^verbatim>\<open>KLine(...)\<close>; an argument left out is \<open>PNone\<close>.\<close>

record KLine_params =
  p_start_time :: pyval
  p_open_price :: pyval
  p_max_price :: pyval
  p_min_price :: pyval
  p_close_price :: pyval
  p_turn_over :: pyval
  p_end_time :: pyval
  p_volume :: pyval
  p_transaction_num :: pyval
  p_buying_turn_over :: pyval
  p_buying_volume :: pyval
  p_ignore_param :: pyval

definition KLine_init :: "builtins \<Rightarrow> KLine_params \<Rightarrow> py_error + KLine" where
  "KLine_init B ps =
     bind_err (py_int B (p_start_time ps)) (\<lambda>st.
     bind_err (py_float B (p_open_price ps)) (\<lambda>op.
     bind_err (py_float B (p_max_price ps)) (\<lambda>mx.
     bind_err (py_float B (p_close_price ps)) (\<lambda>cl.
     bind_err (py_float B (p_turn_over ps)) (\<lambda>tv.
     bind_err (py_int B (p_end_time ps)) (\<lambda>et.
     bind_err (py_float B (p_volume ps)) (\<lambda>vo.
     bind_err (py_int B (p_transaction_num ps)) (\<lambda>tn.
     bind_err (py_float B (p_buying_turn_over ps)) (\<lambda>bt.
     bind_err (py_float B (p_buying_volume ps)) (\<lambda>bv.
       Inr \<lparr> start_time = st, open_price = op, max_price = mx,
             min_price = p_min_price ps, close_price = cl, turn_over = tv,
             end_time = et, volume = vo, transaction_num = tn,
             buying_turn_over = bt, buying_volume = bv,
             ignore_param = str_of B (p_ignore_param ps) \<rparr>))))))))))"

text \<open>
  Building a bar from a raw tuple, as \<^verbatim>\<open>convert_klines_list_to_klines\<close> and
  \<^verbatim>\<open>get_latest_kline\<close> do: the twelve fields are read by position, left to right, before
  the constructor runs.
\<close>

definition KLine_of_raw :: "builtins \<Rightarrow> pyval list \<Rightarrow> py_error + KLine" where
  "KLine_of_raw B raw =
     bind_err (py_getitem raw 0) (\<lambda>a0.
     bind_err (py_getitem raw 1) (\<lambda>a1.
     bind_err (py_getitem raw 2) (\<lambda>a2.
     bind_err (py_getitem raw 3) (\<lambda>a3.
     bind_err (py_getitem raw 4) (\<lambda>a4.
     bind_err (py_getitem raw 5) (\<lambda>a5.
     bind_err (py_getitem raw 6) (\<lambda>a6.
     bind_err (py_getitem raw 7) (\<lambda>a7.
     bind_err (py_getitem raw 8) (\<lambda>a8.
     bind_err (py_getitem raw 9) (\<lambda>a9.
     bind_err (py_getitem raw 10) (\<lambda>a10.
     bind_err (py_getitem raw 11) (\<lambda>a11.
       KLine_init B \<lparr> p_start_time = a0, p_open_price = a1, p_max_price = a2,
                       p_min_price = a3, p_close_price = a4, p_turn_over = a5,
                       p_end_time = a6, p_volume = a7, p_transaction_num = a8,
                       p_buying_turn_over = a9, p_buying_volume = a10,
                       p_ignore_param = a11 \<rparr>))))))))))))"

section \<open>KLines: the window of one symbol\<close>

text \<open>
  \<^verbatim>\<open>klines_num\<close> is computed once, by the constructor; the methods never write it again.
\<close>

record KLines =
  klines_list :: "KLine list"
  klines_num :: int

definition KLines_init :: "KLine list \<Rightarrow> KLines" where
  "KLines_init xs = \<lparr> klines_list = xs, klines_num = int (length xs) \<rparr>"

text \<open>
  \<^verbatim>\<open>update_latest_klines\<close> mutates the window in place and returns a boolean; the model
  returns the outcome together with the window afterwards. \<^verbatim>\<open>klines_list[-1]\<close> raises on an
  empty window.
\<close>

definition update_latest_klines :: "KLines \<Rightarrow> KLine \<Rightarrow> (py_error + bool) \<times> KLines" where
  "update_latest_klines ks kline =
     (case py_getitem (klines_list ks) (- 1) of
        Inl e \<Rightarrow> (Inl e, ks)
      | Inr lst \<Rightarrow>
          if end_time lst \<le> end_time kline \<and> start_time lst = start_time kline
          then (Inr True,
                ks\<lparr>klines_list := (klines_list ks)[length (klines_list ks) - 1 := kline]\<rparr>)
          else if end_time lst \<le> end_time kline \<and> start_time lst < start_time kline
          then (Inr True, ks\<lparr>klines_list := tl (klines_list ks) @ [kline]\<rparr>)
          else (Inr False, ks))"

text \<open>The named tuple \<^verbatim>\<open>KLinesAverageData\<close>.\<close>

record KLinesAverageData =
  avg_turn_over :: real
  avg_volume :: real
  avg_transaction_num :: real
  avg_buying_turn_over :: real
  avg_buying_volume :: real
  start_index :: int
  end_index :: int

text \<open>
  The five running totals of \<^verbatim>\<open>calculate_average_data_by_given_window\<close>, in the order
  \<^verbatim>\<open>all_turn_over\<close>, \<^verbatim>\<open>all_volume\<close>, \<^verbatim>\<open>all_transaction_num\<close>, \<^verbatim>\<open>all_buying_turn_over\<close>,
  \<^verbatim>\<open>all_buying_volume\<close>.
\<close>

type_synonym totals = "real \<times> real \<times> int \<times> real \<times> real"

definition add_kline :: "totals \<Rightarrow> KLine \<Rightarrow> totals" where
  "add_kline acc k =
     (case acc of (t, v, n, bt, bv) \<Rightarrow>
        (t + turn_over k, v + volume k, n + transaction_num k,
         bt + buying_turn_over k, bv + buying_volume k))"

text \<open>The \<^verbatim>\<open>for i in range(...)\<close> loop, over the indices still to visit.\<close>

fun sum_window :: "KLine list \<Rightarrow> int list \<Rightarrow> totals \<Rightarrow> py_error + totals" where
  "sum_window xs [] acc = Inr acc"
| "sum_window xs (i # is) acc =
     (case py_getitem xs i of
        Inl e \<Rightarrow> Inl e
      | Inr k \<Rightarrow> sum_window xs is (add_kline acc k))"

text \<open>\<^verbatim>\<open>a / b\<close> on numbers: true division, raising on a zero divisor.\<close>

definition py_truediv :: "real \<Rightarrow> int \<Rightarrow> py_error + real" where
  "py_truediv a b = (if b = 0 then Inl ZeroDivisionError else Inr (a / real_of_int b))"

definition calculate_average_data_by_given_window ::
  "KLines \<Rightarrow> int \<Rightarrow> int \<Rightarrow> py_error + KLinesAverageData" where
  "calculate_average_data_by_given_window ks start window_size =
     (if \<not> \<bar>start\<bar> < klines_num ks then Inl AssertionError
      else if \<not> \<bar>window_size\<bar> \<le> klines_num ks then Inl AssertionError
      else if \<not> \<bar>start + window_size\<bar> \<le> klines_num ks then Inl AssertionError
      else
        bind_err (sum_window (klines_list ks) [start .. start + window_size - 1] (0, 0, 0, 0, 0))
          (\<lambda>(all_turn_over, all_volume, all_transaction_num,
              all_buying_turn_over, all_buying_volume).
        bind_err (py_truediv all_turn_over window_size) (\<lambda>a1.
        bind_err (py_truediv all_volume window_size) (\<lambda>a2.
        bind_err (py_truediv (real_of_int all_transaction_num) window_size) (\<lambda>a3.
        bind_err (py_truediv all_buying_turn_over window_size) (\<lambda>a4.
        bind_err (py_truediv all_buying_volume window_size) (\<lambda>a5.
          Inr \<lparr> avg_turn_over = a1, avg_volume = a2, avg_transaction_num = a3,
                avg_buying_turn_over = a4, avg_buying_volume = a5,
                start_index = start,
                end_index = start + window_size - 1 \<rparr>)))))))"

section \<open>The tracked symbols\<close>

text \<open>
  \<^verbatim>\<open>cache_content\<close> is a \<^verbatim>\<open>defaultdict(list)\<close> when the cache file did not exist and the
  plain dictionary that \<^verbatim>\<open>json.load\<close> returned when it did. Reading a missing key of the
  first stores and returns an empty list; reading a missing key of the second raises.
  The keys are kept in insertion order.
\<close>

record cache =
  is_defaultdict :: bool
  items :: "(string \<times> string list) list"

definition cache_getitem :: "cache \<Rightarrow> string \<Rightarrow> py_error + (string list \<times> cache)" where
  "cache_getitem c k =
     (case map_of (items c) k of
        Some v \<Rightarrow> Inr (v, c)
      | None \<Rightarrow>
          if is_defaultdict c then Inr ([], c\<lparr>items := AList.update k [] (items c)\<rparr>)
          else Inl KeyError)"

definition cache_setitem :: "cache \<Rightarrow> string \<Rightarrow> string list \<Rightarrow> cache" where
  "cache_setitem c k v = c\<lparr>items := AList.update k v (items c)\<rparr>"

text \<open>One entry of the spot listing and one of the derivatives listing.\<close>

record spot_info =
  symbol :: string
  status :: string

record um_info =
  pair :: string

text \<open>\<^verbatim>\<open>s[-4:] == 'USDT'\<close>: a string shorter than four characters is compared whole.\<close>

definition ends_with_USDT :: "string \<Rightarrow> bool" where
  "ends_with_USDT s = (drop (length s - 4) s = ''USDT'')"

text \<open>
  \<^verbatim>\<open>get_need_trading_pair_set\<close>. The two listings are the results of the two
  \<^verbatim>\<open>exchange_info()\<close> requests, each of which may have raised. \<open>list_of\<close> is the order in
  which \<^verbatim>\<open>list(...)\<close> enumerates a set, which Python leaves open. The dictionary returned
  is the one written to the cache file; writing the file itself is not modelled.
\<close>

definition get_need_trading_pair_set ::
  "(string set \<Rightarrow> string list) \<Rightarrow> cache \<Rightarrow> py_error + spot_info list \<Rightarrow>
   py_error + um_info list \<Rightarrow> py_error + cache" where
  "get_need_trading_pair_set list_of c spot_result um_result =
     bind_err (if items c \<noteq> [] then cache_getitem c ''trading_pair_names''
               else Inr ([], c)) (\<lambda>(_, c1).
     bind_err spot_result (\<lambda>pair_infos.
     bind_err um_result (\<lambda>um_pair_infos.
     bind_err (cache_getitem c1 ''trading_pair_names'') (\<lambda>(names, c2).
       let pair_names = set (map symbol (filter (\<lambda>p. symbol p \<noteq> [] \<and>
                               ends_with_USDT (symbol p) \<and> status p = ''TRADING'' \<and>
                               symbol p \<notin> set names) pair_infos));
           um_pair_names = set (map pair (filter (\<lambda>p. pair p \<noteq> [] \<and>
                               ends_with_USDT (pair p) \<and>
                               pair p \<notin> set names) um_pair_infos))
       in Inr (cache_setitem c2 ''trading_pair_names''
                 (names @ list_of (um_pair_names \<inter> pair_names)))))))"

section \<open>RankMaintainer\<close>

text \<open>
  The exchange client answers \<^verbatim>\<open>klines(symbol, interval, limit=n)\<close> from a state \<open>'w\<close> of
  the outside world, which a request may change; it returns raw bars or raises. The
  interval and the time zone are fixed for one maintainer and are part of the client here.
\<close>

record 'w env =
  py :: builtins
  client_klines :: "'w \<Rightarrow> string \<Rightarrow> int \<Rightarrow> (py_error + pyval list list) \<times> 'w"

record 'w RankMaintainer =
  max_klines_num :: int
  cache_content :: cache
  pair_name_to_klines_dict :: "string \<rightharpoonup> KLines"
  world :: 'w

fun convert_loop :: "builtins \<Rightarrow> pyval list list \<Rightarrow> KLine list \<Rightarrow> py_error + KLines" where
  "convert_loop B [] res = Inr (KLines_init res)"
| "convert_loop B (kline # rest) res =
     (case KLine_of_raw B kline of
        Inl e \<Rightarrow> Inl e
      | Inr k \<Rightarrow> convert_loop B rest (res @ [k]))"

definition convert_klines_list_to_klines :: "builtins \<Rightarrow> pyval list list \<Rightarrow> py_error + KLines" where
  "convert_klines_list_to_klines B raw_klines = convert_loop B raw_klines []"

definition get_latest_kline ::
  "'w env \<Rightarrow> string \<Rightarrow> 'w RankMaintainer \<Rightarrow> (py_error + KLine) \<times> 'w RankMaintainer" where
  "get_latest_kline E sname rm =
     (case client_klines E (world rm) sname 1 of
        (res, w') \<Rightarrow>
          (bind_err res (\<lambda>rows. bind_err (py_getitem rows 0) (KLine_of_raw (py E))),
           rm\<lparr>world := w'\<rparr>))"

text \<open>
  A \<^verbatim>\<open>KLines\<close> object defines neither \<^verbatim>\<open>__bool__\<close> nor \<^verbatim>\<open>__len__\<close>, so the second half of
  the test \<^verbatim>\<open>symbol in dict.keys() and dict[symbol]\<close> is true for every cached window.
\<close>

definition get_current_trading_klines ::
  "'w env \<Rightarrow> string \<Rightarrow> 'w RankMaintainer \<Rightarrow> (py_error + KLines) \<times> 'w RankMaintainer" where
  "get_current_trading_klines E sname rm =
     (case pair_name_to_klines_dict rm sname of
        Some ks \<Rightarrow> (Inr ks, rm)
      | None \<Rightarrow>
          (case client_klines E (world rm) sname (max_klines_num rm) of
             (res, w') \<Rightarrow>
               (case bind_err res (convert_klines_list_to_klines (py E)) of
                  Inl e \<Rightarrow> (Inl e, rm\<lparr>world := w'\<rparr>)
                | Inr ks \<Rightarrow>
                    (Inr ks, rm\<lparr>world := w',
                       pair_name_to_klines_dict := (pair_name_to_klines_dict rm)(sname \<mapsto> ks)\<rparr>))))"

text \<open>
  \<^verbatim>\<open>pair_name_to_klines_dict\<close> is a \<^verbatim>\<open>defaultdict()\<close> without a default factory: reading a
  missing key raises \<^verbatim>\<open>KeyError\<close>. The bar is fetched before the window is looked up.
\<close>

definition update_klines ::
  "'w env \<Rightarrow> string \<Rightarrow> 'w RankMaintainer \<Rightarrow> (py_error + bool) \<times> 'w RankMaintainer" where
  "update_klines E sname rm =
     (case get_latest_kline E sname rm of
        (Inl e, rm1) \<Rightarrow> (Inl e, rm1)
      | (Inr latest_kline, rm1) \<Rightarrow>
          (case pair_name_to_klines_dict rm1 sname of
             None \<Rightarrow> (Inl KeyError, rm1)
           | Some cached_klines \<Rightarrow>
               (case update_latest_klines cached_klines latest_kline of
                  (res, ks') \<Rightarrow>
                    (res, rm1\<lparr>pair_name_to_klines_dict :=
                                 (pair_name_to_klines_dict rm1)(sname \<mapsto> ks')\<rparr>))))"

text \<open>
  The body that both ranking methods run on the window of one symbol: the two averages
  and the ratio of their buying volumes.
\<close>

definition buying_volume_diff_ratio :: "int \<Rightarrow> KLines \<Rightarrow> int \<Rightarrow> int \<Rightarrow> py_error + real" where
  "buying_volume_diff_ratio max_num ks past_klines_window_size recent_klines_window_size =
     bind_err (calculate_average_data_by_given_window ks
                 (max_num - past_klines_window_size) past_klines_window_size) (\<lambda>past_avg_data.
     bind_err (calculate_average_data_by_given_window ks
                 (max_num - recent_klines_window_size) recent_klines_window_size) (\<lambda>recent_avg_data.
       let buying_volume_diff = avg_buying_volume recent_avg_data - avg_buying_volume past_avg_data
       in if avg_buying_volume past_avg_data = 0 then Inr 0
          else Inr (buying_volume_diff / avg_buying_volume past_avg_data)))"

text \<open>
  \<^verbatim>\<open>sorted(xs, key=..., reverse=True)\<close>: the list is reversed, sorted by a stable ascending
  sort and reversed again.
\<close>

definition sorted_reverse :: "('a \<Rightarrow> 'k::linorder) \<Rightarrow> 'a list \<Rightarrow> 'a list" where
  "sorted_reverse key xs = rev (sort_key key (rev xs))"

fun init_rank_loop ::
  "'w env \<Rightarrow> int \<Rightarrow> int \<Rightarrow> string list \<Rightarrow> (string \<times> real) list \<Rightarrow> 'w RankMaintainer \<Rightarrow>
   (py_error + (string \<times> real) list) \<times> 'w RankMaintainer" where
  "init_rank_loop E p r [] volume_diff_ratio_list rm = (Inr volume_diff_ratio_list, rm)"
| "init_rank_loop E p r (pair_name # rest) volume_diff_ratio_list rm =
     (case get_current_trading_klines E pair_name rm of
        (Inl e, rm1) \<Rightarrow> (Inl e, rm1)
      | (Inr current_trading_klines, rm1) \<Rightarrow>
          (case buying_volume_diff_ratio (max_klines_num rm1) current_trading_klines p r of
             Inl e \<Rightarrow> (Inl e, rm1)
           | Inr ratio \<Rightarrow>
               init_rank_loop E p r rest (volume_diff_ratio_list @ [(pair_name, ratio)]) rm1))"

definition get_init_buying_volume_diff_ratio_rank ::
  "'w env \<Rightarrow> 'w RankMaintainer \<Rightarrow> int \<Rightarrow> int \<Rightarrow>
   (py_error + (string \<times> real) list) \<times> 'w RankMaintainer" where
  "get_init_buying_volume_diff_ratio_rank E rm past_klines_window_size recent_klines_window_size =
     (if \<not> past_klines_window_size \<le> max_klines_num rm then (Inl AssertionError, rm)
      else if \<not> recent_klines_window_size \<le> max_klines_num rm then (Inl AssertionError, rm)
      else
        (case cache_getitem (cache_content rm) ''trading_pair_names'' of
           Inl e \<Rightarrow> (Inl e, rm)
         | Inr (rank_pair_names, c') \<Rightarrow>
             (case init_rank_loop E past_klines_window_size recent_klines_window_size
                     rank_pair_names [] (rm\<lparr>cache_content := c'\<rparr>) of
                (Inl e, rm') \<Rightarrow> (Inl e, rm')
              | (Inr volume_diff_ratio_list, rm') \<Rightarrow>
                  (Inr (sorted_reverse snd volume_diff_ratio_list), rm'))))"

text \<open>
  The loop of \<^verbatim>\<open>update_buying_volume_diff_ratio_rank\<close>. The boolean that
  \<^verbatim>\<open>update_klines\<close> returns is not looked at.
\<close>

fun update_rank_loop ::
  "'w env \<Rightarrow> int \<Rightarrow> int \<Rightarrow> string list \<Rightarrow> (string \<times> real) list \<Rightarrow> 'w RankMaintainer \<Rightarrow>
   (py_error + (string \<times> real) list) \<times> 'w RankMaintainer" where
  "update_rank_loop E p r [] volume_diff_ratio_list rm = (Inr volume_diff_ratio_list, rm)"
| "update_rank_loop E p r (pair_name # rest) volume_diff_ratio_list rm =
     (case update_klines E pair_name rm of
        (Inl e, rm1) \<Rightarrow> (Inl e, rm1)
      | (Inr _, rm1) \<Rightarrow>
          (case pair_name_to_klines_dict rm1 pair_name of
             None \<Rightarrow> (Inl KeyError, rm1)
           | Some current_trading_klines \<Rightarrow>
               (case buying_volume_diff_ratio (max_klines_num rm1) current_trading_klines p r of
                  Inl e \<Rightarrow> (Inl e, rm1)
                | Inr ratio \<Rightarrow>
                    update_rank_loop E p r rest
                      (volume_diff_ratio_list @ [(pair_name, ratio)]) rm1)))"

definition update_buying_volume_diff_ratio_rank ::
  "'w env \<Rightarrow> 'w RankMaintainer \<Rightarrow> int \<Rightarrow> int \<Rightarrow>
   (py_error + (string \<times> real) list) \<times> 'w RankMaintainer" where
  "update_buying_volume_diff_ratio_rank E rm past_klines_window_size recent_klines_window_size =
     (if \<not> past_klines_window_size \<le> max_klines_num rm then (Inl AssertionError, rm)
      else if \<not> recent_klines_window_size \<le> max_klines_num rm then (Inl AssertionError, rm)
      else
        (case cache_getitem (cache_content rm) ''trading_pair_names'' of
           Inl e \<Rightarrow> (Inl e, rm)
         | Inr (rank_pair_names, c') \<Rightarrow>
             (case update_rank_loop E past_klines_window_size recent_klines_window_size
                     rank_pair_names [] (rm\<lparr>cache_content := c'\<rparr>) of
                (Inl e, rm') \<Rightarrow> (Inl e, rm')
              | (Inr volume_diff_ratio_list, rm') \<Rightarrow>
                  (Inr (sorted_reverse snd volume_diff_ratio_list), rm'))))"

section \<open>Notions used to state the properties\<close>

text \<open>
  The bar that index \<open>i\<close> addresses in a list: a negative index addresses
  \<open>length + i\<close>.
\<close>

definition bar_at :: "'a list \<Rightarrow> int \<Rightarrow> 'a" where
  "bar_at xs i = xs ! nat (if i < 0 then int (length xs) + i else i)"

text \<open>The bars at the indices \<open>start, ..., start + window_size - 1\<close>, in that order.\<close>

definition window_bars :: "KLine list \<Rightarrow> int \<Rightarrow> int \<Rightarrow> KLine list" where
  "window_bars xs start window_size = map (bar_at xs) [start .. start + window_size - 1]"

text \<open>The arithmetic mean of one field over a list of bars.\<close>

definition mean_of :: "(KLine \<Rightarrow> real) \<Rightarrow> KLine list \<Rightarrow> real" where
  "mean_of f bars = sum_list (map f bars) / real (length bars)"

text \<open>
  The ratio as the specification words it, with the two averages taken at the negative
  start indices \<open>- past_window_size\<close> and \<open>- recent_window_size\<close>. It is compared below
  with \<open>buying_volume_diff_ratio\<close>, which is the source.
\<close>

definition spec_ratio :: "KLines \<Rightarrow> int \<Rightarrow> int \<Rightarrow> py_error + real" where
  "spec_ratio ks past_window_size recent_window_size =
     bind_err (calculate_average_data_by_given_window ks (- past_window_size) past_window_size)
       (\<lambda>past_avg.
     bind_err (calculate_average_data_by_given_window ks (- recent_window_size) recent_window_size)
       (\<lambda>recent_avg.
       if avg_buying_volume past_avg = 0 then Inr 0
       else Inr ((avg_buying_volume recent_avg - avg_buying_volume past_avg)
                 / avg_buying_volume past_avg)))"

subsection \<open>Example data\<close>

text \<open>
  A stand-in for the built-ins that reads no string as a number; the examples use numeric
  raw fields only.
\<close>

definition example_builtins :: builtins where
  "example_builtins = \<lparr> int_of_str = (\<lambda>s. None), float_of_str = (\<lambda>s. None),
                        str_of = (\<lambda>v. case v of PStr s \<Rightarrow> s | _ \<Rightarrow> ''None'') \<rparr>"

definition example_bar :: "int \<Rightarrow> int \<Rightarrow> real \<Rightarrow> KLine" where
  "example_bar st et bv =
     \<lparr> start_time = st, open_price = 1, max_price = 1, min_price = PFloat 1,
       close_price = 1, turn_over = 2 * bv, end_time = et, volume = 2 * bv,
       transaction_num = 1, buying_turn_over = bv, buying_volume = bv,
       ignore_param = ''0'' \<rparr>"

text \<open>The raw tuple from which the constructor builds \<open>example_bar st et bv\<close>.\<close>

definition example_raw :: "int \<Rightarrow> int \<Rightarrow> real \<Rightarrow> pyval list" where
  "example_raw st et bv =
     [PInt st, PFloat 1, PFloat 1, PFloat 1, PFloat 1, PFloat (2 * bv), PInt et,
      PFloat (2 * bv), PInt 1, PFloat bv, PFloat bv, PStr ''0'']"

definition example_window :: KLines where
  "example_window = KLines_init [example_bar 0 59 10, example_bar 60 119 20, example_bar 120 150 30]"

text \<open>
  A client whose latest bar is stale for two symbols, a new interval for a third, and that
  fails for every other symbol.
\<close>

definition example_client :: "unit env" where
  "example_client = \<lparr> py = example_builtins,
     client_klines = (\<lambda>w name limit.
        if name = ''AUSDT'' \<or> name = ''DUSDT'' then (Inr [example_raw 60 100 4], w)
        else if name = ''BUSDT'' then (Inr [example_raw 180 239 70], w)
        else (Inl ClientError, w)) \<rparr>"

text \<open>A maintainer that tracks \<open>names\<close> and has cached \<open>example_window\<close> for each.\<close>

definition example_rm :: "string list \<Rightarrow> unit RankMaintainer" where
  "example_rm names =
     \<lparr> max_klines_num = 3,
       cache_content = \<lparr> is_defaultdict = False, items = [(''trading_pair_names'', names)] \<rparr>,
       pair_name_to_klines_dict = (\<lambda>name. if name \<in> set names then Some example_window else None),
       world = () \<rparr>"

definition example_cache :: cache where
  "example_cache = \<lparr> is_defaultdict = False, items = [(''trading_pair_names'', [''ETHUSDT''])] \<rparr>"

definition example_spot :: "spot_info list" where
  "example_spot = [\<lparr> symbol = ''BTCUSDT'', status = ''TRADING'' \<rparr>,
                   \<lparr> symbol = ''ETHUSDT'', status = ''TRADING'' \<rparr>,
                   \<lparr> symbol = ''XRPBTC'', status = ''TRADING'' \<rparr>,
                   \<lparr> symbol = ''LTCUSDT'', status = ''BREAK'' \<rparr>]"

definition example_um :: "um_info list" where
  "example_um = [\<lparr> pair = ''BTCUSDT'' \<rparr>, \<lparr> pair = ''LTCUSDT'' \<rparr>, \<lparr> pair = ''BTCUSDT'' \<rparr>]"

section \<open>Indexing and the averaging loop\<close>

lemma py_getitem_last: "xs \<noteq> [] \<Longrightarrow> py_getitem xs (- 1) = Inr (last xs)"
  by (cases xs rule: rev_cases) (simp_all add: py_getitem_def)

lemma py_getitem_in_range:
  "- int (length xs) \<le> i \<Longrightarrow> i < int (length xs) \<Longrightarrow> py_getitem xs i = Inr (bar_at xs i)"
  by (simp add: py_getitem_def bar_at_def)

lemma sum_window_in_range:
  "\<forall>i \<in> set is. - int (length xs) \<le> i \<and> i < int (length xs) \<Longrightarrow>
   sum_window xs is acc = Inr (foldl add_kline acc (map (bar_at xs) is))"
  by (induction "is" arbitrary: acc) (simp_all add: py_getitem_in_range)

lemma foldl_add_kline:
  "foldl add_kline (t, v, n, bt, bv) ks =
     (t + sum_list (map turn_over ks), v + sum_list (map volume ks),
      n + sum_list (map transaction_num ks), bt + sum_list (map buying_turn_over ks),
      bv + sum_list (map buying_volume ks))"
  by (induction ks arbitrary: t v n bt bv) (simp_all add: add_kline_def algebra_simps)

lemma average_in_range:
  assumes n: "klines_num ks = int (length (klines_list ks))"
    and a1: "\<bar>start\<bar> < klines_num ks"
    and a2: "\<bar>window_size\<bar> \<le> klines_num ks"
    and a3: "\<bar>start + window_size\<bar> \<le> klines_num ks"
    and nz: "window_size \<noteq> 0"
  shows "calculate_average_data_by_given_window ks start window_size =
     Inr \<lparr> avg_turn_over = sum_list (map turn_over (window_bars (klines_list ks) start window_size)) / real_of_int window_size,
           avg_volume = sum_list (map volume (window_bars (klines_list ks) start window_size)) / real_of_int window_size,
           avg_transaction_num = real_of_int (sum_list (map transaction_num (window_bars (klines_list ks) start window_size))) / real_of_int window_size,
           avg_buying_turn_over = sum_list (map buying_turn_over (window_bars (klines_list ks) start window_size)) / real_of_int window_size,
           avg_buying_volume = sum_list (map buying_volume (window_bars (klines_list ks) start window_size)) / real_of_int window_size,
           start_index = start, end_index = start + window_size - 1 \<rparr>"
proof -
  have "\<forall>i \<in> set [start .. start + window_size - 1].
          - int (length (klines_list ks)) \<le> i \<and> i < int (length (klines_list ks))"
    using n a1 a3 by auto
  then have "sum_window (klines_list ks) [start .. start + window_size - 1] (0, 0, 0, 0, 0) =
     Inr (foldl add_kline (0, 0, 0, 0, 0) (window_bars (klines_list ks) start window_size))"
    unfolding window_bars_def by (rule sum_window_in_range)
  then show ?thesis
    using a1 a2 a3 nz
    by (simp add: calculate_average_data_by_given_window_def foldl_add_kline bind_err_def py_truediv_def)
qed

lemma window_bars_suffix:
  "0 \<le> start \<Longrightarrow> start + window_size = int (length xs) \<Longrightarrow>
   window_bars xs start window_size = drop (nat start) xs"
  by (rule nth_equalityI) (auto simp: window_bars_def bar_at_def nat_add_distrib)

lemma window_bars_neg_suffix:
  "start < 0 \<Longrightarrow> - int (length xs) \<le> start \<Longrightarrow> start + window_size = 0 \<Longrightarrow>
   window_bars xs start window_size = drop (nat (int (length xs) + start)) xs"
  by (rule nth_equalityI) (auto simp: window_bars_def bar_at_def intro!: arg_cong[where f="(!) xs"])

lemma window_bars_wrap:
  assumes "start < 0" "- int (length xs) \<le> start" "0 < start + window_size"
    "start + window_size \<le> int (length xs)"
  shows "window_bars xs start window_size =
         drop (nat (int (length xs) + start)) xs @ take (nat (start + window_size)) xs"
proof -
  have "[start .. start + window_size - 1] = [start .. -1] @ [0 .. start + window_size - 1]"
    using assms upto_split2[of start "-1" "start + window_size - 1"] by simp
  moreover have "map (bar_at xs) [start .. -1] = drop (nat (int (length xs) + start)) xs"
    using window_bars_neg_suffix[of start xs "-start"] assms by (simp add: window_bars_def)
  moreover have "map (bar_at xs) [0 .. start + window_size - 1] = take (nat (start + window_size)) xs"
    using assms by (intro nth_equalityI) (auto simp: bar_at_def)
  ultimately show ?thesis by (simp add: window_bars_def)
qed

lemma average_assertion_iff:
  "calculate_average_data_by_given_window ks start window_size = Inl AssertionError \<longleftrightarrow>
   \<not> (\<bar>start\<bar> < klines_num ks \<and> \<bar>window_size\<bar> \<le> klines_num ks \<and>
      \<bar>start + window_size\<bar> \<le> klines_num ks)"
proof -
  have "sum_window xs is acc \<noteq> Inl AssertionError" for xs "is" acc
    by (induction "is" arbitrary: acc) (auto simp: py_getitem_def split: sum.splits)
  then show ?thesis
    by (auto simp: calculate_average_data_by_given_window_def bind_err_def py_truediv_def
        split: sum.splits prod.splits if_splits)
qed

lemma sum_list_of_int: "sum_list (map (\<lambda>k. real_of_int (f k)) xs) = real_of_int (sum_list (map f xs))"
  by (induction xs) simp_all

lemma average_means:
  assumes n: "klines_num ks = int (length (klines_list ks))"
    and a1: "\<bar>start\<bar> < klines_num ks"
    and a2: "0 < window_size" "window_size \<le> klines_num ks"
    and a3: "\<bar>start + window_size\<bar> \<le> klines_num ks"
    and bars: "window_bars (klines_list ks) start window_size = bars"
  shows "calculate_average_data_by_given_window ks start window_size =
     Inr \<lparr> avg_turn_over = mean_of turn_over bars,
           avg_volume = mean_of volume bars,
           avg_transaction_num = mean_of (\<lambda>k. real_of_int (transaction_num k)) bars,
           avg_buying_turn_over = mean_of buying_turn_over bars,
           avg_buying_volume = mean_of buying_volume bars,
           start_index = start, end_index = start + window_size - 1 \<rparr>"
proof -
  have "length bars = nat window_size"
    using bars by (auto simp: window_bars_def)
  then have "real (length bars) = real_of_int window_size"
    using a2 by simp
  then show ?thesis
    using average_in_range[OF n a1 _ a3, of ] a2 bars
    by (simp add: mean_of_def sum_list_of_int)
qed

lemma average_last_bars:
  assumes n: "klines_num ks = int (length (klines_list ks))"
    and p: "1 \<le> p" "p \<le> klines_num ks"
  shows "calculate_average_data_by_given_window ks (klines_num ks - p) p =
     Inr \<lparr> avg_turn_over = mean_of turn_over (drop (length (klines_list ks) - nat p) (klines_list ks)),
           avg_volume = mean_of volume (drop (length (klines_list ks) - nat p) (klines_list ks)),
           avg_transaction_num = mean_of (\<lambda>k. real_of_int (transaction_num k))
                                   (drop (length (klines_list ks) - nat p) (klines_list ks)),
           avg_buying_turn_over = mean_of buying_turn_over (drop (length (klines_list ks) - nat p) (klines_list ks)),
           avg_buying_volume = mean_of buying_volume (drop (length (klines_list ks) - nat p) (klines_list ks)),
           start_index = klines_num ks - p, end_index = klines_num ks - 1 \<rparr>"
proof -
  have "window_bars (klines_list ks) (klines_num ks - p) p = drop (nat (klines_num ks - p)) (klines_list ks)"
    using n p by (intro window_bars_suffix) auto
  moreover have "nat (klines_num ks - p) = length (klines_list ks) - nat p"
    using n p by linarith
  ultimately have "window_bars (klines_list ks) (klines_num ks - p) p =
      drop (length (klines_list ks) - nat p) (klines_list ks)"
    by simp
  from average_means[OF n _ _ _ _ this] p show ?thesis
    by simp
qed

lemma average_neg_last_bars:
  assumes n: "klines_num ks = int (length (klines_list ks))"
    and p: "1 \<le> p" "p < klines_num ks"
  shows "calculate_average_data_by_given_window ks (- p) p =
     Inr \<lparr> avg_turn_over = mean_of turn_over (drop (length (klines_list ks) - nat p) (klines_list ks)),
           avg_volume = mean_of volume (drop (length (klines_list ks) - nat p) (klines_list ks)),
           avg_transaction_num = mean_of (\<lambda>k. real_of_int (transaction_num k))
                                   (drop (length (klines_list ks) - nat p) (klines_list ks)),
           avg_buying_turn_over = mean_of buying_turn_over (drop (length (klines_list ks) - nat p) (klines_list ks)),
           avg_buying_volume = mean_of buying_volume (drop (length (klines_list ks) - nat p) (klines_list ks)),
           start_index = - p, end_index = - 1 \<rparr>"
proof -
  have "window_bars (klines_list ks) (- p) p = drop (nat (int (length (klines_list ks)) + - p)) (klines_list ks)"
    using n p by (intro window_bars_neg_suffix) auto
  moreover have "nat (int (length (klines_list ks)) + - p) = length (klines_list ks) - nat p"
    using n p by linarith
  ultimately have "window_bars (klines_list ks) (- p) p =
      drop (length (klines_list ks) - nat p) (klines_list ks)"
    by simp
  from average_means[OF n _ _ _ _ this] p show ?thesis
    by simp
qed

section \<open>Updating a window\<close>

text \<open>
  Claim C3. On a non-empty window, \<^verbatim>\<open>update_latest_klines\<close> returns \<open>True\<close> exactly when
  the new bar ends no earlier than the last bar and starts at the same time (revision) or
  later (advance). A revision replaces the last bar and leaves the others; an advance
  drops the bar at index 0 and appends the new bar, so the length is unchanged and the
  new bar is last. The two conditions exclude each other.
\<close>

theorem update_latest_klines_revision_advance:
  assumes "klines_list ks \<noteq> []"
  shows "(let lst = last (klines_list ks);
              revision = (end_time lst \<le> end_time kline \<and> start_time kline = start_time lst);
              advance = (end_time lst \<le> end_time kline \<and> start_time lst < start_time kline);
              res = fst (update_latest_klines ks kline);
              xs' = klines_list (snd (update_latest_klines ks kline))
          in (revision \<longrightarrow> res = Inr True \<and> xs' = butlast (klines_list ks) @ [kline]) \<and>
             (advance \<longrightarrow> res = Inr True \<and> xs' = tl (klines_list ks) @ [kline] \<and>
                length xs' = length (klines_list ks) \<and> last xs' = kline) \<and>
             (res = Inr True \<longleftrightarrow> revision \<or> advance) \<and>
             \<not> (revision \<and> advance))"
proof -
  obtain ys y where xs: "klines_list ks = ys @ [y]"
    using assms by (cases "klines_list ks" rule: rev_cases) auto
  have "py_getitem (klines_list ks) (- 1) = Inr y"
    using py_getitem_last[OF assms] xs by simp
  then show ?thesis
    using xs by (auto simp: update_latest_klines_def Let_def)
qed

theorem update_latest_klines_revision_advance_witness:
  "klines_list example_window \<noteq> [] \<and>
   update_latest_klines example_window (example_bar 120 179 35) =
     (Inr True, \<lparr> klines_list = [example_bar 0 59 10, example_bar 60 119 20, example_bar 120 179 35],
                  klines_num = 3 \<rparr>) \<and>
   update_latest_klines example_window (example_bar 180 239 5) =
     (Inr True, \<lparr> klines_list = [example_bar 60 119 20, example_bar 120 150 30, example_bar 180 239 5],
                  klines_num = 3 \<rparr>)"
proof -
  have ne: "klines_list example_window \<noteq> []"
    by (simp add: example_window_def KLines_init_def)
  have r: "klines_num example_window = 3"
    by (simp add: example_window_def KLines_init_def)
  show ?thesis
    using update_latest_klines_revision_advance[OF ne, of "example_bar 120 179 35"]
      update_latest_klines_revision_advance[OF ne, of "example_bar 180 239 5"]
    apply (simp add: Let_def)
    apply (simp add: example_window_def KLines_init_def example_bar_def update_latest_klines_def py_getitem_def)
    done
qed

text \<open>
  Claim C4. On a non-empty window, a bar that meets neither the revision nor the advance
  condition, in particular a bar that ends before the last bar ends or starts before the
  last bar starts, is rejected: the method returns \<open>False\<close>, raises nothing, and the
  window afterwards equals the window before.
\<close>

theorem update_latest_klines_rejected:
  assumes "klines_list ks \<noteq> []"
  shows "(\<not> (end_time (last (klines_list ks)) \<le> end_time kline \<and>
             start_time (last (klines_list ks)) = start_time kline) \<and>
          \<not> (end_time (last (klines_list ks)) \<le> end_time kline \<and>
             start_time (last (klines_list ks)) < start_time kline)
          \<longrightarrow> update_latest_klines ks kline = (Inr False, ks)) \<and>
         (end_time kline < end_time (last (klines_list ks)) \<or>
          start_time kline < start_time (last (klines_list ks))
          \<longrightarrow> update_latest_klines ks kline = (Inr False, ks))"
  using py_getitem_last[OF assms] by (auto simp: update_latest_klines_def)

theorem update_latest_klines_rejected_witness:
  "klines_list example_window \<noteq> [] \<and>
   update_latest_klines example_window (example_bar 60 200 7) = (Inr False, example_window) \<and>
   update_latest_klines example_window (example_bar 120 149 7) = (Inr False, example_window)"
proof -
  have ne: "klines_list example_window \<noteq> []"
    by (simp add: example_window_def KLines_init_def)
  have l: "last (klines_list example_window) = example_bar 120 150 30"
    by (simp add: example_window_def KLines_init_def)
  show ?thesis
    using update_latest_klines_rejected[OF ne, of "example_bar 60 200 7"]
      update_latest_klines_rejected[OF ne, of "example_bar 120 149 7"]
    by (simp add: l ne) (simp add: example_bar_def)
qed

section \<open>Averages over a window\<close>

text \<open>
  Claim C5. A window size of 0 passes the three assertions of
  \<^verbatim>\<open>calculate_average_data_by_given_window\<close> on every non-empty window at start index 0,
  and the division by the window size then raises \<^verbatim>\<open>ZeroDivisionError\<close>: no record of
  averages is returned.
\<close>

theorem average_zero_window_size_divides:
  "calculate_average_data_by_given_window (KLines_init (k # ks)) 0 0 = Inl ZeroDivisionError"
  by (simp add: calculate_average_data_by_given_window_def KLines_init_def bind_err_def py_truediv_def)

text \<open>
  Claim C9. With a negative start index and \<open>start + window_size > 0\<close>, the averages are
  taken over the last \<open>- start\<close> bars of the window followed by its first
  \<open>start + window_size\<close> bars.
\<close>

theorem average_negative_start_wraps:
  assumes "klines_num ks = int (length (klines_list ks))"
    and "start < 0" and "- klines_num ks < start"
    and "0 < start + window_size" and "window_size \<le> klines_num ks"
  shows "calculate_average_data_by_given_window ks start window_size =
     (let bars = drop (length (klines_list ks) - nat (- start)) (klines_list ks) @
                 take (nat (start + window_size)) (klines_list ks)
      in Inr \<lparr> avg_turn_over = mean_of turn_over bars,
               avg_volume = mean_of volume bars,
               avg_transaction_num = mean_of (\<lambda>k. real_of_int (transaction_num k)) bars,
               avg_buying_turn_over = mean_of buying_turn_over bars,
               avg_buying_volume = mean_of buying_volume bars,
               start_index = start, end_index = start + window_size - 1 \<rparr>)"
proof -
  have "window_bars (klines_list ks) start window_size =
        drop (nat (int (length (klines_list ks)) + start)) (klines_list ks) @
        take (nat (start + window_size)) (klines_list ks)"
    using assms by (intro window_bars_wrap) auto
  moreover have "nat (int (length (klines_list ks)) + start) = length (klines_list ks) - nat (- start)"
    using assms by linarith
  ultimately have "window_bars (klines_list ks) start window_size =
        drop (length (klines_list ks) - nat (- start)) (klines_list ks) @
        take (nat (start + window_size)) (klines_list ks)"
    by simp
  from average_means[OF assms(1) _ _ _ _ this] assms show ?thesis
    by (simp add: Let_def)
qed

theorem average_negative_start_wraps_witness:
  "calculate_average_data_by_given_window example_window (- 1) 2 =
     Inr \<lparr> avg_turn_over = 40, avg_volume = 40, avg_transaction_num = 1,
           avg_buying_turn_over = 20, avg_buying_volume = 20,
           start_index = - 1, end_index = 0 \<rparr>"
proof -
  have n: "klines_num example_window = int (length (klines_list example_window))"
    by (simp add: example_window_def KLines_init_def)
  have h: "- klines_num example_window < - 1" "(0::int) < - 1 + 2" "2 \<le> klines_num example_window"
    by (simp_all add: example_window_def KLines_init_def)
  show ?thesis
    using average_negative_start_wraps[OF n _ h]
    by (simp add: example_window_def KLines_init_def example_bar_def mean_of_def Let_def)
qed

section \<open>Constructing a bar\<close>

text \<open>
  Claim C8. \<^verbatim>\<open>KLine.__init__\<close> does not convert \<^verbatim>\<open>min_price\<close>: built from a raw tuple whose
  fourth field is the string \<^verbatim>\<open>6.5\<close>, the bar keeps that string as its lowest price, and a
  fourth field \<^verbatim>\<open>None\<close>, which \<^verbatim>\<open>float\<close> rejects, does not make the construction fail.
\<close>

theorem KLine_min_price_not_converted:
  "KLine_of_raw B [PInt 0, PFloat 7, PFloat 9, PStr ''6.5'', PFloat 8, PFloat 100, PInt 59,
                   PFloat 12, PInt 3, PFloat 40, PFloat 5, PStr ''0'']
     = Inr \<lparr> start_time = 0, open_price = 7, max_price = 9, min_price = PStr ''6.5'',
             close_price = 8, turn_over = 100, end_time = 59, volume = 12,
             transaction_num = 3, buying_turn_over = 40, buying_volume = 5,
             ignore_param = str_of B (PStr ''0'') \<rparr> \<and>
   py_float B PNone = Inl TypeError \<and>
   KLine_of_raw B [PInt 0, PFloat 7, PFloat 9, PNone, PFloat 8, PFloat 100, PInt 59,
                   PFloat 12, PInt 3, PFloat 40, PFloat 5, PStr ''0'']
     = Inr \<lparr> start_time = 0, open_price = 7, max_price = 9, min_price = PNone,
             close_price = 8, turn_over = 100, end_time = 59, volume = 12,
             transaction_num = 3, buying_turn_over = 40, buying_volume = 5,
             ignore_param = str_of B (PStr ''0'') \<rparr>"
  by (simp add: KLine_of_raw_def KLine_init_def bind_err_def py_getitem_def)

section \<open>The ratio of one symbol\<close>

text \<open>
  Claim C2, as amended. On a window whose length is \<open>max_klines_num\<close> and for sizes
  \<open>1 \<le> p, r \<le> max_klines_num\<close>, the ratio is \<open>(recent - past) / past\<close>, where \<open>past\<close> and
  \<open>recent\<close> are the mean buying volumes of the last \<open>p\<close> and the last \<open>r\<close> bars, and it is
  0 when \<open>past\<close> is 0. For sizes below \<open>max_klines_num\<close> this is the value that the
  specification's formula gives.
\<close>

theorem ratio_of_full_window:
  assumes "klines_num ks = int (length (klines_list ks))"
    and "max_num = klines_num ks"
    and "1 \<le> p" and "p \<le> max_num" and "1 \<le> r" and "r \<le> max_num"
  shows "buying_volume_diff_ratio max_num ks p r =
     (let past = mean_of buying_volume (drop (length (klines_list ks) - nat p) (klines_list ks));
          recent = mean_of buying_volume (drop (length (klines_list ks) - nat r) (klines_list ks))
      in Inr (if past = 0 then 0 else (recent - past) / past)) \<and>
     (p < max_num \<and> r < max_num \<longrightarrow>
        spec_ratio ks p r = buying_volume_diff_ratio max_num ks p r)"
proof -
  have a: "calculate_average_data_by_given_window ks (max_num - p) p =
      calculate_average_data_by_given_window ks (klines_num ks - p) p"
      "calculate_average_data_by_given_window ks (max_num - r) r =
      calculate_average_data_by_given_window ks (klines_num ks - r) r"
    using assms(2) by simp_all
  have code: "buying_volume_diff_ratio max_num ks p r =
     (let past = mean_of buying_volume (drop (length (klines_list ks) - nat p) (klines_list ks));
          recent = mean_of buying_volume (drop (length (klines_list ks) - nat r) (klines_list ks))
      in Inr (if past = 0 then 0 else (recent - past) / past))"
    unfolding buying_volume_diff_ratio_def a
    using average_last_bars[OF assms(1), of p] average_last_bars[OF assms(1), of r] assms
    by (simp add: bind_err_def Let_def)
  have "spec_ratio ks p r = buying_volume_diff_ratio max_num ks p r" if "p < max_num" "r < max_num"
    unfolding code unfolding spec_ratio_def
    using average_neg_last_bars[OF assms(1), of p] average_neg_last_bars[OF assms(1), of r] assms that
    by (simp add: bind_err_def Let_def)
  with code show ?thesis by blast
qed

theorem ratio_of_full_window_witness:
  "buying_volume_diff_ratio 3 example_window 2 1 = Inr (1 / 5) \<and>
   spec_ratio example_window 2 1 = Inr (1 / 5)"
proof -
  have n: "klines_num example_window = int (length (klines_list example_window))"
    and m: "3 = klines_num example_window"
    by (simp_all add: example_window_def KLines_init_def)
  show ?thesis
    using ratio_of_full_window[OF n m, of 2 1]
    by (simp add: example_window_def KLines_init_def example_bar_def mean_of_def Let_def)
qed

text \<open>
  The source takes the averages at the start indices \<open>max_klines_num - p\<close> and
  \<open>max_klines_num - r\<close>. At \<open>p = max_klines_num\<close> it returns a ratio where the average at
  start index \<open>- p\<close> fails its first assertion, and on a window shorter than
  \<open>max_klines_num\<close> it fails an assertion where the average at \<open>- p\<close> is defined.
\<close>

theorem ratio_spec_formula_counterexample:
  "buying_volume_diff_ratio 3 example_window 3 1 = Inr (1 / 2) \<and>
   spec_ratio example_window 3 1 = Inl AssertionError \<and>
   spec_ratio (KLines_init [example_bar 0 59 10, example_bar 60 119 20]) 1 1 = Inr 0 \<and>
   buying_volume_diff_ratio 3 (KLines_init [example_bar 0 59 10, example_bar 60 119 20]) 1 1
     = Inl AssertionError"
proof -
  have n: "klines_num example_window = int (length (klines_list example_window))"
    "klines_num (KLines_init [example_bar 0 59 10, example_bar 60 119 20]) =
      int (length (klines_list (KLines_init [example_bar 0 59 10, example_bar 60 119 20])))"
    by (simp_all add: example_window_def KLines_init_def)
  have 1: "buying_volume_diff_ratio 3 example_window 3 1 = Inr (1 / 2)"
    unfolding buying_volume_diff_ratio_def
    using average_last_bars[OF n(1), of 3] average_last_bars[OF n(1), of 1]
    by (simp add: example_window_def KLines_init_def example_bar_def mean_of_def bind_err_def)
  have 2: "spec_ratio example_window 3 1 = Inl AssertionError"
    by (simp add: spec_ratio_def calculate_average_data_by_given_window_def
        example_window_def KLines_init_def bind_err_def)
  have 3: "spec_ratio (KLines_init [example_bar 0 59 10, example_bar 60 119 20]) 1 1 = Inr 0"
    unfolding spec_ratio_def
    using average_neg_last_bars[OF n(2), of 1]
    by (simp add: KLines_init_def example_bar_def mean_of_def bind_err_def)
  have 4: "buying_volume_diff_ratio 3 (KLines_init [example_bar 0 59 10, example_bar 60 119 20]) 1 1
     = Inl AssertionError"
    by (simp add: buying_volume_diff_ratio_def calculate_average_data_by_given_window_def
        KLines_init_def bind_err_def)
  show ?thesis using 1 2 3 4 by simp
qed

section \<open>Refreshing one symbol\<close>

lemma example_raw_bar: "KLine_of_raw example_builtins (example_raw st et bv) = Inr (example_bar st et bv)"
  by (simp add: example_raw_def example_builtins_def KLine_of_raw_def
      KLine_init_def bind_err_def py_getitem_def example_bar_def)

text \<open>
  Claim C10, as amended. \<^verbatim>\<open>update_klines\<close> for a symbol without a cached window always
  raises and caches nothing. The latest bar is fetched and built first: when that raises,
  its exception is the one that surfaces; otherwise the lookup of the window raises
  \<^verbatim>\<open>KeyError\<close>.
\<close>

theorem update_klines_without_window:
  assumes "pair_name_to_klines_dict rm name = None"
  shows "update_klines E name rm =
           (case fst (get_latest_kline E name rm) of
              Inl e \<Rightarrow> Inl e
            | Inr latest_kline \<Rightarrow> Inl KeyError,
            snd (get_latest_kline E name rm)) \<and>
         pair_name_to_klines_dict (snd (get_latest_kline E name rm)) = pair_name_to_klines_dict rm"
  using assms
  by (auto simp: update_klines_def get_latest_kline_def split: prod.splits sum.splits)

theorem update_klines_without_window_witness:
  "update_klines example_client ''AUSDT'' (example_rm []) = (Inl KeyError, example_rm [])"
proof -
  have h: "pair_name_to_klines_dict (example_rm []) ''AUSDT'' = None"
    by (simp add: example_rm_def)
  show ?thesis
    using update_klines_without_window[OF h, of example_client]
    by (simp add: get_latest_kline_def example_client_def bind_err_def
        py_getitem_def example_raw_bar example_rm_def)
qed

text \<open>
  Without a cached window and with a client that fails for the symbol, the exception is the
  client's and the lookup is never reached.
\<close>

theorem update_klines_fetch_error_counterexample:
  "pair_name_to_klines_dict (example_rm []) ''CUSDT'' = None \<and>
   update_klines example_client ''CUSDT'' (example_rm []) = (Inl ClientError, example_rm []) \<and>
   ClientError \<noteq> KeyError"
  by (simp add: update_klines_def get_latest_kline_def example_client_def bind_err_def
      example_rm_def)

section \<open>Resolving the tracked symbols\<close>

lemma cache_getitem_setitem:
  "cache_getitem (cache_setitem c k v) k = Inr (v, cache_setitem c k v)"
  by (simp add: cache_getitem_def cache_setitem_def update_conv')

lemma cache_setitem_same:
  "cache_setitem (cache_setitem c k v) k v = cache_setitem c k v"
  by (simp add: cache_setitem_def)

lemma cache_setitem_items: "items (cache_setitem c k v) \<noteq> []"
  by (simp add: cache_setitem_def)

lemma cache_getitem_names:
  "cache_getitem c k = Inr (v, c') \<Longrightarrow> cache_getitem c' k = Inr (v, c')"
  by (auto simp: cache_getitem_def update_conv' split: option.splits if_splits)

text \<open>
  Claim C7. When a run of \<^verbatim>\<open>get_need_trading_pair_set\<close> has returned, a second run against
  the same two listings returns the same dictionary. The first run keeps the names it
  found and appends names that are distinct and were not present.
\<close>

theorem get_need_trading_pair_set_idempotent:
  assumes enum: "\<forall>S. finite S \<longrightarrow> set (list_of S) = S \<and> distinct (list_of S)"
    and first: "get_need_trading_pair_set list_of c spot_result um_result = Inr c1"
  shows "get_need_trading_pair_set list_of c1 spot_result um_result = Inr c1 \<and>
         (\<exists>names c' new.
            cache_getitem c ''trading_pair_names'' = Inr (names, c') \<and>
            cache_getitem c1 ''trading_pair_names'' = Inr (names @ new, c1) \<and>
            distinct new \<and> set new \<inter> set names = {})"
proof -
  obtain pair_infos um_pair_infos where
    sp: "spot_result = Inr pair_infos" and um: "um_result = Inr um_pair_infos"
    using first
    by (auto simp: get_need_trading_pair_set_def bind_err_def split: sum.splits prod.splits if_splits)
  obtain x0 c0 where g0: "(if items c \<noteq> [] then cache_getitem c ''trading_pair_names''
               else Inr ([], c)) = Inr (x0, c0)"
    using first
    by (auto simp: get_need_trading_pair_set_def bind_err_def split: sum.splits prod.splits)
  obtain names c2 where g1: "cache_getitem c0 ''trading_pair_names'' = Inr (names, c2)"
    using first sp um g0
    by (auto simp: get_need_trading_pair_set_def bind_err_def split: sum.splits prod.splits)
  define S where "S = set (map pair (filter (\<lambda>p. pair p \<noteq> [] \<and>
                               ends_with_USDT (pair p) \<and>
                               pair p \<notin> set names) um_pair_infos)) \<inter>
                      set (map symbol (filter (\<lambda>p. symbol p \<noteq> [] \<and>
                               ends_with_USDT (symbol p) \<and> status p = ''TRADING'' \<and>
                               symbol p \<notin> set names) pair_infos))"
  have c1: "c1 = cache_setitem c2 ''trading_pair_names'' (names @ list_of S)"
    using first sp um g0 g1
    by (simp add: get_need_trading_pair_set_def bind_err_def S_def Let_def)
  have finS: "finite S" by (simp add: S_def)
  have setS: "set (list_of S) = S" and distS: "distinct (list_of S)"
    using enum finS by auto
  have orig: "\<exists>c'. cache_getitem c ''trading_pair_names'' = Inr (names, c')"
  proof (cases "items c = []")
    case True
    then show ?thesis using g0 g1 by auto
  next
    case False
    then have "cache_getitem c ''trading_pair_names'' = Inr (x0, c0)" using g0 by simp
    moreover from cache_getitem_names[OF this] g1 have "x0 = names" by simp
    ultimately show ?thesis by blast
  qed
  have get1: "cache_getitem c1 ''trading_pair_names'' = Inr (names @ list_of S, c1)"
    unfolding c1 by (rule cache_getitem_setitem)
  define S' where "S' = set (map pair (filter (\<lambda>p. pair p \<noteq> [] \<and>
                               ends_with_USDT (pair p) \<and>
                               pair p \<notin> set (names @ list_of S)) um_pair_infos)) \<inter>
                      set (map symbol (filter (\<lambda>p. symbol p \<noteq> [] \<and>
                               ends_with_USDT (symbol p) \<and> status p = ''TRADING'' \<and>
                               symbol p \<notin> set (names @ list_of S)) pair_infos))"
  have "S' = {}"
  proof (rule ccontr)
    assume "S' \<noteq> {}"
    then obtain x where x: "x \<in> S'" by blast
    then have "x \<in> S" "x \<notin> set (list_of S)"
      unfolding S'_def S_def by auto
    then show False using setS by simp
  qed
  then have "list_of S' = []"
    using enum by (metis finite.emptyI set_empty)
  have ne: "items c1 \<noteq> []"
    unfolding c1 by (rule cache_setitem_items)
  have "get_need_trading_pair_set list_of c1 spot_result um_result =
        Inr (cache_setitem c1 ''trading_pair_names'' (names @ list_of S @ list_of S'))"
    using ne get1 sp um
    by (simp add: get_need_trading_pair_set_def bind_err_def S'_def Let_def)
  also have "\<dots> = Inr c1"
    using \<open>list_of S' = []\<close> by (simp add: c1 cache_setitem_same)
  finally have second: "get_need_trading_pair_set list_of c1 spot_result um_result = Inr c1" .
  have "set (list_of S) \<inter> set names = {}"
    using setS by (auto simp: S_def)
  with second orig get1 distS show ?thesis by blast
qed

lemma example_first_run:
  "get_need_trading_pair_set sorted_list_of_set example_cache (Inr example_spot) (Inr example_um) =
   Inr \<lparr> is_defaultdict = False, items = [(''trading_pair_names'', [''ETHUSDT'', ''BTCUSDT''])] \<rparr>"
  by code_simp

theorem get_need_trading_pair_set_idempotent_witness:
  "get_need_trading_pair_set sorted_list_of_set example_cache (Inr example_spot) (Inr example_um) =
     Inr \<lparr> is_defaultdict = False, items = [(''trading_pair_names'', [''ETHUSDT'', ''BTCUSDT''])] \<rparr> \<and>
   get_need_trading_pair_set sorted_list_of_set
     \<lparr> is_defaultdict = False, items = [(''trading_pair_names'', [''ETHUSDT'', ''BTCUSDT''])] \<rparr>
     (Inr example_spot) (Inr example_um) =
     Inr \<lparr> is_defaultdict = False, items = [(''trading_pair_names'', [''ETHUSDT'', ''BTCUSDT''])] \<rparr>"
proof -
  have enum: "\<forall>S::string set. finite S \<longrightarrow> set (sorted_list_of_set S) = S \<and> distinct (sorted_list_of_set S)"
    by simp
  show ?thesis
    using get_need_trading_pair_set_idempotent[OF enum example_first_run] example_first_run
    by simp
qed

section \<open>Ranking passes\<close>

lemma sorted_reverse_descending:
  "sorted_wrt (\<lambda>a b. key b \<le> key a) (sorted_reverse key xs)"
proof -
  have "sorted (map key (sort_key key (rev xs)))"
    by (rule sorted_sort_key)
  then have "sorted_wrt (\<lambda>a b. key a \<le> key b) (sort_key key (rev xs))"
    by (simp add: sorted_map)
  then show ?thesis
    by (simp add: sorted_reverse_def sorted_wrt_rev)
qed

lemma sorted_reverse_stable:
  "filter (\<lambda>e. key e = q) (sorted_reverse key xs) = filter (\<lambda>e. key e = q) xs"
proof -
  have "filter (\<lambda>e. key e = q) (sorted_reverse key xs) =
        rev (filter (\<lambda>e. key e = q) (sort_key key (rev xs)))"
    by (simp add: sorted_reverse_def rev_filter)
  also have "\<dots> = rev (filter (\<lambda>e. key e = q) (rev xs))"
    by (simp only: sort_key_stable)
  also have "\<dots> = filter (\<lambda>e. key e = q) xs"
    by (simp add: rev_filter)
  finally show ?thesis .
qed

lemma mset_sorted_reverse: "mset (sorted_reverse key xs) = mset xs"
  by (simp add: sorted_reverse_def)

lemma init_rank_loop_names:
  "init_rank_loop E p r names acc rm = (Inr l, rm') \<Longrightarrow> map fst l = map fst acc @ names"
  by (induction E p r names acc rm rule: init_rank_loop.induct)
     (auto split: prod.splits sum.splits)

lemma update_rank_loop_names:
  "update_rank_loop E p r names acc rm = (Inr l, rm') \<Longrightarrow> map fst l = map fst acc @ names"
  by (induction E p r names acc rm rule: update_rank_loop.induct)
     (auto split: prod.splits sum.splits option.splits)

lemma update_rank_loop_append:
  "update_rank_loop E p r (pre @ rest) acc rm =
     (case update_rank_loop E p r pre acc rm of
        (Inl e, rm1) \<Rightarrow> (Inl e, rm1)
      | (Inr acc1, rm1) \<Rightarrow> update_rank_loop E p r rest acc1 rm1)"
  by (induction E p r pre acc rm rule: update_rank_loop.induct)
     (auto split: prod.splits sum.splits option.splits)

lemma example_ratio: "buying_volume_diff_ratio 3 example_window 2 1 = Inr (1 / 5)"
  by (simp add: buying_volume_diff_ratio_def calculate_average_data_by_given_window_def
      example_window_def KLines_init_def example_bar_def bind_err_def py_truediv_def
      py_getitem_def add_kline_def upto.simps)

lemma example_ratio_advanced:
  "buying_volume_diff_ratio 3
     \<lparr> klines_list = [example_bar 60 119 20, example_bar 120 150 30, example_bar 180 239 70],
       klines_num = 3 \<rparr> 2 1 = Inr (2 / 5)"
  by (simp add: buying_volume_diff_ratio_def calculate_average_data_by_given_window_def
      example_bar_def bind_err_def py_truediv_def
      py_getitem_def add_kline_def upto.simps)

lemma example_update_stale:
  "update_latest_klines example_window (example_bar 60 100 4) = (Inr False, example_window)"
  by (simp add: update_latest_klines_def example_window_def KLines_init_def py_getitem_def
      example_bar_def)

lemma example_update_advance:
  "update_latest_klines example_window (example_bar 180 239 70) =
     (Inr True, \<lparr> klines_list = [example_bar 60 119 20, example_bar 120 150 30, example_bar 180 239 70],
       klines_num = 3 \<rparr>)"
  by (simp add: update_latest_klines_def example_window_def KLines_init_def py_getitem_def
      example_bar_def)

lemma example_update_pass:
  "fst (update_buying_volume_diff_ratio_rank example_client
          (example_rm [''AUSDT'', ''BUSDT'', ''DUSDT'']) 2 1) =
   Inr [(''BUSDT'', 2 / 5), (''AUSDT'', 1 / 5), (''DUSDT'', 1 / 5)]"
  by (simp add: update_buying_volume_diff_ratio_rank_def example_rm_def cache_getitem_def
      update_klines_def get_latest_kline_def example_client_def bind_err_def py_getitem_def
      example_raw_bar example_update_stale example_update_advance example_ratio
      example_ratio_advanced sorted_reverse_def)

lemma example_update_klines_rejected:
  "fst (update_klines example_client ''AUSDT'' (example_rm [''AUSDT'', ''BUSDT'', ''DUSDT''])) = Inr False"
  by (simp add: example_rm_def
      update_klines_def get_latest_kline_def example_client_def bind_err_def py_getitem_def
      example_raw_bar example_update_stale)

lemma example_update_pass_aborts:
  "fst (update_buying_volume_diff_ratio_rank example_client
          (example_rm [''CUSDT'', ''BUSDT'']) 2 1) = Inl ClientError"
  by (simp add: update_buying_volume_diff_ratio_rank_def example_rm_def cache_getitem_def
      update_klines_def get_latest_kline_def example_client_def bind_err_def)

lemma example_init_pass:
  "fst (get_init_buying_volume_diff_ratio_rank example_client
          (example_rm [''AUSDT'', ''BUSDT'', ''DUSDT'']) 2 1) =
   Inr [(''AUSDT'', 1 / 5), (''BUSDT'', 1 / 5), (''DUSDT'', 1 / 5)]"
  by (simp add: get_init_buying_volume_diff_ratio_rank_def example_rm_def cache_getitem_def
      get_current_trading_klines_def example_ratio sorted_reverse_def)

text \<open>
  Claim C6. Whenever \<^verbatim>\<open>get_init_buying_volume_diff_ratio_rank\<close> or
  \<^verbatim>\<open>update_buying_volume_diff_ratio_rank\<close> returns a ranking, the pairs were collected in the
  order of the tracked names, the ranking holds the same pairs in non-increasing order of
  ratio, and the pairs of any one ratio stand in the order in which they were collected.
\<close>

theorem rank_sorted_descending_stable:
  "(\<forall>out rm'. get_init_buying_volume_diff_ratio_rank E rm p r = (Inr out, rm') \<longrightarrow>
      (\<exists>names c' collected.
         cache_getitem (cache_content rm) ''trading_pair_names'' = Inr (names, c') \<and>
         init_rank_loop E p r names [] (rm\<lparr>cache_content := c'\<rparr>) = (Inr collected, rm') \<and>
         map fst collected = names \<and>
         sorted_wrt (\<lambda>a b. snd b \<le> snd a) out \<and>
         mset out = mset collected \<and>
         (\<forall>q. filter (\<lambda>e. snd e = q) out = filter (\<lambda>e. snd e = q) collected))) \<and>
   (\<forall>out rm'. update_buying_volume_diff_ratio_rank E rm p r = (Inr out, rm') \<longrightarrow>
      (\<exists>names c' collected.
         cache_getitem (cache_content rm) ''trading_pair_names'' = Inr (names, c') \<and>
         update_rank_loop E p r names [] (rm\<lparr>cache_content := c'\<rparr>) = (Inr collected, rm') \<and>
         map fst collected = names \<and>
         sorted_wrt (\<lambda>a b. snd b \<le> snd a) out \<and>
         mset out = mset collected \<and>
         (\<forall>q. filter (\<lambda>e. snd e = q) out = filter (\<lambda>e. snd e = q) collected)))"
proof (intro conjI allI impI)
  fix out rm'
  assume "get_init_buying_volume_diff_ratio_rank E rm p r = (Inr out, rm')"
  then obtain names c' collected where
    g: "cache_getitem (cache_content rm) ''trading_pair_names'' = Inr (names, c')" and
    l: "init_rank_loop E p r names [] (rm\<lparr>cache_content := c'\<rparr>) = (Inr collected, rm')" and
    o: "out = sorted_reverse snd collected"
    by (auto simp: get_init_buying_volume_diff_ratio_rank_def
        split: if_splits sum.splits prod.splits)
  from init_rank_loop_names[OF l] have "map fst collected = names" by simp
  with g l o show "\<exists>names c' collected.
         cache_getitem (cache_content rm) ''trading_pair_names'' = Inr (names, c') \<and>
         init_rank_loop E p r names [] (rm\<lparr>cache_content := c'\<rparr>) = (Inr collected, rm') \<and>
         map fst collected = names \<and>
         sorted_wrt (\<lambda>a b. snd b \<le> snd a) out \<and>
         mset out = mset collected \<and>
         (\<forall>q. filter (\<lambda>e. snd e = q) out = filter (\<lambda>e. snd e = q) collected)"
    using sorted_reverse_descending[of snd collected] sorted_reverse_stable[of snd _ collected]
      mset_sorted_reverse[of snd collected]
    by blast
next
  fix out rm'
  assume "update_buying_volume_diff_ratio_rank E rm p r = (Inr out, rm')"
  then obtain names c' collected where
    g: "cache_getitem (cache_content rm) ''trading_pair_names'' = Inr (names, c')" and
    l: "update_rank_loop E p r names [] (rm\<lparr>cache_content := c'\<rparr>) = (Inr collected, rm')" and
    o: "out = sorted_reverse snd collected"
    by (auto simp: update_buying_volume_diff_ratio_rank_def
        split: if_splits sum.splits prod.splits)
  from update_rank_loop_names[OF l] have "map fst collected = names" by simp
  with g l o show "\<exists>names c' collected.
         cache_getitem (cache_content rm) ''trading_pair_names'' = Inr (names, c') \<and>
         update_rank_loop E p r names [] (rm\<lparr>cache_content := c'\<rparr>) = (Inr collected, rm') \<and>
         map fst collected = names \<and>
         sorted_wrt (\<lambda>a b. snd b \<le> snd a) out \<and>
         mset out = mset collected \<and>
         (\<forall>q. filter (\<lambda>e. snd e = q) out = filter (\<lambda>e. snd e = q) collected)"
    using sorted_reverse_descending[of snd collected] sorted_reverse_stable[of snd _ collected]
      mset_sorted_reverse[of snd collected]
    by blast
qed

theorem rank_sorted_descending_stable_witness:
  "fst (update_buying_volume_diff_ratio_rank example_client
          (example_rm [''AUSDT'', ''BUSDT'', ''DUSDT'']) 2 1) =
     Inr [(''BUSDT'', 2 / 5), (''AUSDT'', 1 / 5), (''DUSDT'', 1 / 5)] \<and>
   fst (get_init_buying_volume_diff_ratio_rank example_client
          (example_rm [''AUSDT'', ''BUSDT'', ''DUSDT'']) 2 1) =
     Inr [(''AUSDT'', 1 / 5), (''BUSDT'', 1 / 5), (''DUSDT'', 1 / 5)] \<and>
   sorted_wrt (\<lambda>a b. snd b \<le> snd a)
     [(''BUSDT'', 2 / 5 :: real), (''AUSDT'', 1 / 5), (''DUSDT'', 1 / 5)] \<and>
   sorted_wrt (\<lambda>a b. snd b \<le> snd a)
     [(''AUSDT'', 1 / 5 :: real), (''BUSDT'', 1 / 5), (''DUSDT'', 1 / 5)]"
proof -
  let ?rm = "example_rm [''AUSDT'', ''BUSDT'', ''DUSDT'']"
  have u: "update_buying_volume_diff_ratio_rank example_client ?rm 2 1 =
     (Inr [(''BUSDT'', 2 / 5), (''AUSDT'', 1 / 5), (''DUSDT'', 1 / 5)],
      snd (update_buying_volume_diff_ratio_rank example_client ?rm 2 1))"
    using example_update_pass by (simp add: prod_eq_iff)
  have i: "get_init_buying_volume_diff_ratio_rank example_client ?rm 2 1 =
     (Inr [(''AUSDT'', 1 / 5), (''BUSDT'', 1 / 5), (''DUSDT'', 1 / 5)],
      snd (get_init_buying_volume_diff_ratio_rank example_client ?rm 2 1))"
    using example_init_pass by (simp add: prod_eq_iff)
  have "sorted_wrt (\<lambda>a b. snd b \<le> snd a)
     [(''BUSDT'', 2 / 5 :: real), (''AUSDT'', 1 / 5), (''DUSDT'', 1 / 5)]"
    using rank_sorted_descending_stable[of example_client ?rm 2 1] u by blast
  moreover have "sorted_wrt (\<lambda>a b. snd b \<le> snd a)
     [(''AUSDT'', 1 / 5 :: real), (''BUSDT'', 1 / 5), (''DUSDT'', 1 / 5)]"
    using rank_sorted_descending_stable[of example_client ?rm 2 1] i by blast
  ultimately show ?thesis
    using example_update_pass example_init_pass by simp
qed

lemma update_latest_klines_False:
  "update_latest_klines ks k = (Inr False, ks') \<Longrightarrow> ks' = ks"
  by (auto simp: update_latest_klines_def split: sum.splits if_splits)

lemma update_klines_rejected_state:
  assumes "update_klines E name rm = (Inr False, rm')"
  shows "pair_name_to_klines_dict rm' = pair_name_to_klines_dict rm \<and>
         max_klines_num rm' = max_klines_num rm"
proof -
  obtain res w' where c: "client_klines E (world rm) name 1 = (res, w')"
    by (cases "client_klines E (world rm) name 1") auto
  obtain k where k: "get_latest_kline E name rm = (Inr k, rm\<lparr>world := w'\<rparr>)"
    using assms c
    by (auto simp: update_klines_def get_latest_kline_def split: sum.splits)
  obtain ks where ks: "pair_name_to_klines_dict rm name = Some ks"
    using assms k by (auto simp: update_klines_def split: option.splits)
  obtain ks' where u: "update_latest_klines ks k = (Inr False, ks')"
    and rm': "rm' = rm\<lparr>world := w', pair_name_to_klines_dict :=
                          (pair_name_to_klines_dict rm)(name \<mapsto> ks')\<rparr>"
    using assms k ks by (auto simp: update_klines_def split: prod.splits)
  have "ks' = ks" using u by (rule update_latest_klines_False)
  then have "(pair_name_to_klines_dict rm)(name \<mapsto> ks') = pair_name_to_klines_dict rm"
    using ks by (simp add: map_upd_triv)
  then show ?thesis by (simp add: rm')
qed

lemma update_rank_loop_keeps:
  "update_rank_loop E p r names acc rm = (Inr l, rm') \<Longrightarrow> set acc \<subseteq> set l"
  by (induction E p r names acc rm rule: update_rank_loop.induct)
     (auto split: prod.splits sum.splits option.splits)

lemma set_sorted_reverse: "set (sorted_reverse key xs) = set xs"
  by (simp add: sorted_reverse_def)

text \<open>
  Claim C1, as amended. A pass of \<^verbatim>\<open>update_buying_volume_diff_ratio_rank\<close> that returns a
  ranking has an entry for every tracked name, whatever the outcome of the window updates.
  A tracked name whose update is rejected keeps its window as it was, and the ranking
  holds that name with the ratio of that unchanged window. When, for some tracked name, the
  fetch of the latest bar, the lookup of the window or the computation of the averages
  raises, the pass ends with that exception and returns no ranking.
\<close>

theorem update_rank_all_or_nothing:
  "(\<forall>out rm'. update_buying_volume_diff_ratio_rank E rm p r = (Inr out, rm') \<longrightarrow>
      (\<exists>names c'. cache_getitem (cache_content rm) ''trading_pair_names'' = Inr (names, c') \<and>
                  mset (map fst out) = mset names)) \<and>
   (\<forall>pre name rest c' acc1 rm1 rm2 ks out rm'.
      cache_getitem (cache_content rm) ''trading_pair_names'' = Inr (pre @ name # rest, c') \<and>
      update_rank_loop E p r pre [] (rm\<lparr>cache_content := c'\<rparr>) = (Inr acc1, rm1) \<and>
      pair_name_to_klines_dict rm1 name = Some ks \<and>
      update_klines E name rm1 = (Inr False, rm2) \<and>
      update_buying_volume_diff_ratio_rank E rm p r = (Inr out, rm')
      \<longrightarrow> pair_name_to_klines_dict rm2 = pair_name_to_klines_dict rm1 \<and>
          (\<exists>x. buying_volume_diff_ratio (max_klines_num rm1) ks p r = Inr x \<and>
               (name, x) \<in> set out)) \<and>
   (\<forall>pre name rest c' acc1 rm1 e rm2.
      p \<le> max_klines_num rm \<and> r \<le> max_klines_num rm \<and>
      cache_getitem (cache_content rm) ''trading_pair_names'' = Inr (pre @ name # rest, c') \<and>
      update_rank_loop E p r pre [] (rm\<lparr>cache_content := c'\<rparr>) = (Inr acc1, rm1) \<and>
      (update_klines E name rm1 = (Inl e, rm2) \<or>
       (\<exists>b ks. update_klines E name rm1 = (Inr b, rm2) \<and>
               pair_name_to_klines_dict rm2 name = Some ks \<and>
               buying_volume_diff_ratio (max_klines_num rm2) ks p r = Inl e))
      \<longrightarrow> update_buying_volume_diff_ratio_rank E rm p r = (Inl e, rm2))"
proof (intro conjI allI impI)
  fix out rm'
  assume "update_buying_volume_diff_ratio_rank E rm p r = (Inr out, rm')"
  then obtain names c' collected where
    g: "cache_getitem (cache_content rm) ''trading_pair_names'' = Inr (names, c')" and
    l: "update_rank_loop E p r names [] (rm\<lparr>cache_content := c'\<rparr>) = (Inr collected, rm')" and
    o: "out = sorted_reverse snd collected"
    by (auto simp: update_buying_volume_diff_ratio_rank_def
        split: if_splits sum.splits prod.splits)
  have "mset (map fst out) = image_mset fst (mset collected)"
    by (simp add: o mset_sorted_reverse)
  also have "\<dots> = mset (map fst collected)" by simp
  also have "\<dots> = mset names"
    using update_rank_loop_names[OF l] by simp
  finally show "\<exists>names c'. cache_getitem (cache_content rm) ''trading_pair_names'' = Inr (names, c') \<and>
                  mset (map fst out) = mset names"
    using g by blast
next
  fix pre name rest c' acc1 rm1 rm2 ks out rm'
  assume a: "cache_getitem (cache_content rm) ''trading_pair_names'' = Inr (pre @ name # rest, c') \<and>
      update_rank_loop E p r pre [] (rm\<lparr>cache_content := c'\<rparr>) = (Inr acc1, rm1) \<and>
      pair_name_to_klines_dict rm1 name = Some ks \<and>
      update_klines E name rm1 = (Inr False, rm2) \<and>
      update_buying_volume_diff_ratio_rank E rm p r = (Inr out, rm')"
  then have rej: "update_klines E name rm1 = (Inr False, rm2)" by simp
  have same: "pair_name_to_klines_dict rm2 = pair_name_to_klines_dict rm1"
    and mx: "max_klines_num rm2 = max_klines_num rm1"
    using update_klines_rejected_state[OF rej] by simp_all
  obtain collected where
    l: "update_rank_loop E p r (pre @ name # rest) [] (rm\<lparr>cache_content := c'\<rparr>) = (Inr collected, rm')"
    and o: "out = sorted_reverse snd collected"
    using a
    by (auto simp: update_buying_volume_diff_ratio_rank_def
        split: if_splits sum.splits prod.splits)
  have step: "update_rank_loop E p r (name # rest) acc1 rm1 = (Inr collected, rm')"
    using l a by (simp add: update_rank_loop_append)
  have ks2: "pair_name_to_klines_dict rm2 name = Some ks"
    using a same by simp
  obtain x where x: "buying_volume_diff_ratio (max_klines_num rm1) ks p r = Inr x"
    and rest: "update_rank_loop E p r rest (acc1 @ [(name, x)]) rm2 = (Inr collected, rm')"
    using step rej ks2 mx by (auto split: sum.splits)
  have "(name, x) \<in> set collected"
    using update_rank_loop_keeps[OF rest] by auto
  then have "(name, x) \<in> set out"
    by (simp add: o set_sorted_reverse)
  with x show "\<exists>x. buying_volume_diff_ratio (max_klines_num rm1) ks p r = Inr x \<and>
               (name, x) \<in> set out"
    by blast
  show "pair_name_to_klines_dict rm2 = pair_name_to_klines_dict rm1"
    by (rule same)
next
  fix pre name rest c' acc1 rm1 e rm2
  assume a: "p \<le> max_klines_num rm \<and> r \<le> max_klines_num rm \<and>
      cache_getitem (cache_content rm) ''trading_pair_names'' = Inr (pre @ name # rest, c') \<and>
      update_rank_loop E p r pre [] (rm\<lparr>cache_content := c'\<rparr>) = (Inr acc1, rm1) \<and>
      (update_klines E name rm1 = (Inl e, rm2) \<or>
       (\<exists>b ks. update_klines E name rm1 = (Inr b, rm2) \<and>
               pair_name_to_klines_dict rm2 name = Some ks \<and>
               buying_volume_diff_ratio (max_klines_num rm2) ks p r = Inl e))"
  then have "update_rank_loop E p r (name # rest) acc1 rm1 = (Inl e, rm2)"
    by auto
  then have "update_rank_loop E p r (pre @ name # rest) [] (rm\<lparr>cache_content := c'\<rparr>) = (Inl e, rm2)"
    using a by (simp add: update_rank_loop_append)
  then show "update_buying_volume_diff_ratio_rank E rm p r = (Inl e, rm2)"
    using a by (simp add: update_buying_volume_diff_ratio_rank_def)
qed

theorem update_rank_all_or_nothing_witness:
  "mset (map fst [(''BUSDT'', 2 / 5 :: real), (''AUSDT'', 1 / 5), (''DUSDT'', 1 / 5)]) =
     mset [''AUSDT'', ''BUSDT'', ''DUSDT''] \<and>
   fst (update_klines example_client ''AUSDT'' (example_rm [''AUSDT'', ''BUSDT'', ''DUSDT''])) = Inr False \<and>
   pair_name_to_klines_dict
     (snd (update_klines example_client ''AUSDT'' (example_rm [''AUSDT'', ''BUSDT'', ''DUSDT''])))
     = pair_name_to_klines_dict (example_rm [''AUSDT'', ''BUSDT'', ''DUSDT'']) \<and>
   buying_volume_diff_ratio 3 example_window 2 1 = Inr (1 / 5) \<and>
   fst (update_buying_volume_diff_ratio_rank example_client
          (example_rm [''AUSDT'', ''BUSDT'', ''DUSDT'']) 2 1) =
     Inr [(''BUSDT'', 2 / 5), (''AUSDT'', 1 / 5), (''DUSDT'', 1 / 5)] \<and>
   update_buying_volume_diff_ratio_rank example_client (example_rm [''CUSDT'', ''BUSDT'']) 2 1 =
     (Inl ClientError, example_rm [''CUSDT'', ''BUSDT''])"
proof -
  let ?rm = "example_rm [''AUSDT'', ''BUSDT'', ''DUSDT'']"
  let ?rmc = "example_rm [''CUSDT'', ''BUSDT'']"
  have u: "update_buying_volume_diff_ratio_rank example_client ?rm 2 1 =
     (Inr [(''BUSDT'', 2 / 5), (''AUSDT'', 1 / 5), (''DUSDT'', 1 / 5)],
      snd (update_buying_volume_diff_ratio_rank example_client ?rm 2 1))"
    using example_update_pass by (simp add: prod_eq_iff)
  have g: "cache_getitem (cache_content ?rm) ''trading_pair_names'' =
             Inr ([''AUSDT'', ''BUSDT'', ''DUSDT''], cache_content ?rm)"
    by (simp add: example_rm_def cache_getitem_def)
  have 1: "mset (map fst [(''BUSDT'', 2 / 5 :: real), (''AUSDT'', 1 / 5), (''DUSDT'', 1 / 5)]) =
     mset [''AUSDT'', ''BUSDT'', ''DUSDT'']"
    using update_rank_all_or_nothing[of example_client ?rm 2 1, THEN conjunct1, rule_format, OF u] g
    by auto
  have rej: "update_klines example_client ''AUSDT'' ?rm =
               (Inr False, snd (update_klines example_client ''AUSDT'' ?rm))"
    using example_update_klines_rejected by (simp add: prod_eq_iff)
  have hr: "cache_getitem (cache_content ?rm) ''trading_pair_names'' =
        Inr ([] @ ''AUSDT'' # [''BUSDT'', ''DUSDT''], cache_content ?rm) \<and>
      update_rank_loop example_client 2 1 [] [] (?rm\<lparr>cache_content := cache_content ?rm\<rparr>) = (Inr [], ?rm) \<and>
      pair_name_to_klines_dict ?rm ''AUSDT'' = Some example_window \<and>
      update_klines example_client ''AUSDT'' ?rm =
        (Inr False, snd (update_klines example_client ''AUSDT'' ?rm)) \<and>
      update_buying_volume_diff_ratio_rank example_client ?rm 2 1 =
        (Inr [(''BUSDT'', 2 / 5), (''AUSDT'', 1 / 5), (''DUSDT'', 1 / 5)],
         snd (update_buying_volume_diff_ratio_rank example_client ?rm 2 1))"
    using g rej u by (simp add: example_rm_def)
  have 3: "pair_name_to_klines_dict (snd (update_klines example_client ''AUSDT'' ?rm))
             = pair_name_to_klines_dict ?rm \<and>
           (\<exists>x. buying_volume_diff_ratio (max_klines_num ?rm) example_window 2 1 = Inr x \<and>
             (''AUSDT'', x) \<in> set [(''BUSDT'', 2 / 5), (''AUSDT'', 1 / 5), (''DUSDT'', 1 / 5)])"
    using update_rank_all_or_nothing[of example_client ?rm 2 1, THEN conjunct2, THEN conjunct1,
        rule_format, OF hr] .
  have h: "2 \<le> max_klines_num ?rmc \<and> 1 \<le> max_klines_num ?rmc \<and>
      cache_getitem (cache_content ?rmc) ''trading_pair_names'' =
        Inr ([] @ ''CUSDT'' # [''BUSDT''], cache_content ?rmc) \<and>
      update_rank_loop example_client 2 1 [] [] (?rmc\<lparr>cache_content := cache_content ?rmc\<rparr>) = (Inr [], ?rmc) \<and>
      (update_klines example_client ''CUSDT'' ?rmc = (Inl ClientError, ?rmc) \<or>
       (\<exists>b ks. update_klines example_client ''CUSDT'' ?rmc = (Inr b, ?rmc) \<and>
               pair_name_to_klines_dict ?rmc ''CUSDT'' = Some ks \<and>
               buying_volume_diff_ratio (max_klines_num ?rmc) ks 2 1 = Inl ClientError))"
    by (simp add: example_rm_def cache_getitem_def update_klines_def get_latest_kline_def
        example_client_def bind_err_def)
  have 2: "update_buying_volume_diff_ratio_rank example_client ?rmc 2 1 = (Inl ClientError, ?rmc)"
    using update_rank_all_or_nothing[of example_client ?rmc 2 1, THEN conjunct2, THEN conjunct2,
        rule_format, OF h] .
  show ?thesis
    using 1 2 3 example_update_pass example_update_klines_rejected example_ratio by simp
qed

text \<open>
  A rejected update leaves the symbol in the ranking, and one failing fetch ends the pass
  although the window of the next symbol could be ranked.
\<close>

theorem update_rank_skips_nothing_counterexample:
  "fst (update_klines example_client ''AUSDT'' (example_rm [''AUSDT'', ''BUSDT'', ''DUSDT''])) = Inr False \<and>
   fst (update_buying_volume_diff_ratio_rank example_client
          (example_rm [''AUSDT'', ''BUSDT'', ''DUSDT'']) 2 1) =
     Inr [(''BUSDT'', 2 / 5), (''AUSDT'', 1 / 5), (''DUSDT'', 1 / 5)] \<and>
   fst (update_buying_volume_diff_ratio_rank example_client
          (example_rm [''CUSDT'', ''BUSDT'']) 2 1) = Inl ClientError"
  using example_update_klines_rejected example_update_pass example_update_pass_aborts by simp

end
